theory Spec2Isabelle
  imports Complex_Main "HOL-Library.Word"
begin

section \<open>The attendance service of \<open>app.py\<close>\<close>

text \<open>
  The program is a Flask application over one SQLite database file. Every handler opens a
  connection (\<open>get_conn\<close>), runs its statements, commits and closes. The embedding keeps
  that shape: a handler is a function from the database file and the request to the database
  file and the response.

  What is modelled of the libraries the handlers call:
  \<^item> Python integers are \<open>int\<close>; an SQLite INTEGER is a signed 64-bit value, a \<open>64 word\<close>
    read with \<open>sint\<close>. Binding a Python integer outside that range raises
    \<open>OverflowError\<close> before the statement runs.
  \<^item> Python \<open>str\<close> values and SQLite TEXT values are \<open>string\<close>: the UTF-8 bytes of the text.
  \<^item> A request body is a record whose fields are options: \<open>None\<close> is a key the JSON object
    does not have, so that \<open>data["k"]\<close> raises \<open>KeyError\<close>. A key that is present holds a
    value of the type the schema of \<open>init_db\<close> declares for its column; JSON null, floats
    and nested values are outside the model.
  \<^item> The module \<open>sqlite3\<close> opens a transaction before the first INSERT of a connection and
    keeps its changes pending until \<open>conn.commit()\<close>. A connection that is closed, or dropped
    by an exception, without a commit loses them: the database file stays as it was.
  \<^item> An exception no handler catches becomes Flask's response 500.
\<close>

subsection \<open>Values\<close>

type_synonym sqlite_int = "64 word"

datatype exn =
    KeyError
  | ValueError
  | OverflowError
  | UnicodeDecodeError
  | CsvError
  | IntegrityError
  | OperationalError

text \<open>
  \<open>bind_int\<close> is the conversion of a Python integer parameter to an SQLite INTEGER
  (\<open>Python int too large to convert to SQLite INTEGER\<close> otherwise).
\<close>

definition bind_int :: "int \<Rightarrow> exn + sqlite_int" where
  "bind_int n =
     (if - (2 ^ 63) \<le> n \<and> n < 2 ^ 63 then Inr (word_of_int n) else Inl OverflowError)"

text \<open>\<open>data["k"]\<close> on the request body.\<close>

definition getitem :: "'a option \<Rightarrow> exn + 'a" where
  "getitem v = (case v of None \<Rightarrow> Inl KeyError | Some x \<Rightarrow> Inr x)"

subsection \<open>The schema of \<open>init_db\<close>\<close>

record class_row =
  c_class_id :: sqlite_int
  c_class_name :: string
  c_department :: string

record student_row =
  s_reg_no :: string
  s_student_name :: string
  s_class_id :: sqlite_int

record period_row =
  p_period_id :: sqlite_int
  p_class_id :: sqlite_int
  p_subject_name :: string
  p_period_date :: string
  p_period_number :: sqlite_int

record attendance_row =
  a_period_id :: sqlite_int
  a_reg_no :: string
  a_is_present :: sqlite_int

text \<open>
  A table is the list of its rows in rowid order. \<open>periods_seq\<close> is the row that
  AUTOINCREMENT keeps for \<open>periods\<close> in \<open>sqlite_sequence\<close>: the largest \<open>period_id\<close> ever
  given out, 0 before the first.
\<close>

record db =
  classes :: "class_row list"
  students :: "student_row list"
  periods :: "period_row list"
  periods_seq :: sqlite_int
  attendance :: "attendance_row list"

definition empty_db :: db where
  "empty_db = \<lparr>classes = [], students = [], periods = [], periods_seq = 0, attendance = []\<rparr>"

text \<open>
  \<open>CREATE TABLE IF NOT EXISTS\<close>: a database file that does not exist yet (\<open>None\<close>) gets the
  four empty tables, an existing one is left as it is.
\<close>

definition init_db :: "db option \<Rightarrow> db" where
  "init_db file = (case file of None \<Rightarrow> empty_db | Some d \<Rightarrow> d)"

subsection \<open>Connections\<close>

record conn =
  committed :: db
  pending :: db

definition get_conn :: "db \<Rightarrow> conn" where
  "get_conn d = \<lparr>committed = d, pending = d\<rparr>"

definition commit :: "conn \<Rightarrow> conn" where
  "commit c = c\<lparr>committed := pending c\<rparr>"

text \<open>
  The database file a connection leaves behind, whether \<open>conn.close()\<close> was called or the
  connection was dropped by an exception: what was committed.
\<close>

definition close :: "conn \<Rightarrow> db" where
  "close c = committed c"

subsection \<open>The statements\<close>

text \<open>
  \<open>INSERT INTO classes (class_id, class_name, department) VALUES (?, ?, ?)\<close>.
  \<open>class_id INTEGER PRIMARY KEY\<close>: a row with the same \<open>class_id\<close> is a constraint
  violation. The parameters are bound before the statement runs.
\<close>

definition insert_class :: "conn \<Rightarrow> int \<times> string \<times> string \<Rightarrow> exn + conn" where
  "insert_class c ps =
     (case ps of (class_id, class_name, department) \<Rightarrow>
        (case bind_int class_id of
           Inl e \<Rightarrow> Inl e
         | Inr cid \<Rightarrow>
             if \<exists>r \<in> set (classes (pending c)). c_class_id r = cid then Inl IntegrityError
             else Inr (c\<lparr>pending := (pending c)\<lparr>classes := classes (pending c) @
                    [\<lparr>c_class_id = cid, c_class_name = class_name,
                      c_department = department\<rparr>]\<rparr>\<rparr>)))"

text \<open>
  \<open>INSERT INTO students (reg_no, student_name, class_id) VALUES (?, ?, ?)\<close>.
  \<open>reg_no TEXT PRIMARY KEY\<close>. The FOREIGN KEY clause on \<open>class_id\<close> is not enforced:
  \<open>get_conn\<close> never issues \<open>PRAGMA foreign_keys = ON\<close>, and SQLite leaves foreign keys
  off by default.
\<close>

definition insert_student :: "conn \<Rightarrow> string \<times> string \<times> int \<Rightarrow> exn + conn" where
  "insert_student c ps =
     (case ps of (reg_no, student_name, class_id) \<Rightarrow>
        (case bind_int class_id of
           Inl e \<Rightarrow> Inl e
         | Inr cid \<Rightarrow>
             if \<exists>r \<in> set (students (pending c)). s_reg_no r = reg_no then Inl IntegrityError
             else Inr (c\<lparr>pending := (pending c)\<lparr>students := students (pending c) @
                    [\<lparr>s_reg_no = reg_no, s_student_name = student_name,
                      s_class_id = cid\<rparr>]\<rparr>\<rparr>)))"

subsection \<open>Responses\<close>

text \<open>
  The JSON bodies the handlers return, with the numbers and rows they carry kept as values:
  \<open>PeriodCreated\<close> is \<open>{"message": "Period created", "period_id": ...}\<close>,
  \<open>BulkMessage added skipped\<close> the message of \<open>bulk_add_students\<close> with its two counts,
  \<open>BulkError e\<close> its \<open>Error processing file: ...\<close>, \<open>StudentList\<close> the array of
  \<open>get_students\<close>, \<open>OverallAttendance\<close> the object of \<open>get_overall_attendance\<close>
  (reg_no, student_name, total_classes, attended_classes, attendance_percentage), and
  \<open>InternalServerError e\<close> Flask's answer to an exception \<open>e\<close> that no handler caught.
\<close>

datatype body =
    Message string
  | Error string
  | PeriodCreated int
  | BulkMessage nat nat
  | BulkError exn
  | StudentList "student_row list"
  | OverallAttendance string string int int rat
  | InternalServerError exn

type_synonym response = "body \<times> nat"

subsection \<open>\<open>add_class\<close>\<close>

record add_class_data =
  ac_class_id :: "int option"
  ac_class_name :: "string option"
  ac_department :: "string option"

text \<open>The parameter tuple of \<open>add_class\<close>; \<open>data.get("department", "")\<close> has a default.\<close>

definition add_class_params :: "add_class_data \<Rightarrow> exn + int \<times> string \<times> string" where
  "add_class_params data =
     (case getitem (ac_class_id data) of
        Inl e \<Rightarrow> Inl e
      | Inr class_id \<Rightarrow>
          (case getitem (ac_class_name data) of
             Inl e \<Rightarrow> Inl e
           | Inr class_name \<Rightarrow>
               Inr (class_id, class_name,
                    (case ac_department data of None \<Rightarrow> '''' | Some d \<Rightarrow> d))))"

definition add_class :: "db \<Rightarrow> add_class_data \<Rightarrow> db \<times> response" where
  "add_class file data =
     (let conn = get_conn file in
      case add_class_params data of
        Inl e \<Rightarrow> (close conn, (InternalServerError e, 500))
      | Inr ps \<Rightarrow>
          (case insert_class conn ps of
             Inr conn' \<Rightarrow> (close (commit conn'), (Message ''Class added'', 201))
           | Inl e \<Rightarrow>
               if e = IntegrityError
               then (close conn, (Error ''Class ID already exists'', 400))
               else (close conn, (InternalServerError e, 500))))"

subsection \<open>\<open>add_student\<close>\<close>

record add_student_data =
  as_reg_no :: "string option"
  as_student_name :: "string option"
  as_class_id :: "int option"

definition add_student_params :: "add_student_data \<Rightarrow> exn + string \<times> string \<times> int" where
  "add_student_params data =
     (case getitem (as_reg_no data) of
        Inl e \<Rightarrow> Inl e
      | Inr reg_no \<Rightarrow>
          (case getitem (as_student_name data) of
             Inl e \<Rightarrow> Inl e
           | Inr student_name \<Rightarrow>
               (case getitem (as_class_id data) of
                  Inl e \<Rightarrow> Inl e
                | Inr class_id \<Rightarrow> Inr (reg_no, student_name, class_id))))"

definition add_student :: "db \<Rightarrow> add_student_data \<Rightarrow> db \<times> response" where
  "add_student file data =
     (let conn = get_conn file in
      case add_student_params data of
        Inl e \<Rightarrow> (close conn, (InternalServerError e, 500))
      | Inr ps \<Rightarrow>
          (case insert_student conn ps of
             Inr conn' \<Rightarrow> (close (commit conn'), (Message ''Student added'', 201))
           | Inl e \<Rightarrow>
               if e = IntegrityError
               then (close conn, (Error ''Student registration number already exists'', 400))
               else (close conn, (InternalServerError e, 500))))"

subsection \<open>\<open>get_students\<close>\<close>


subsection \<open>\<open>bulk_add_students\<close>\<close>

text \<open>
  \<open>bytes.decode("UTF8")\<close>: the well-formed byte sequences of UTF-8 (no overlong forms, no
  surrogates, nothing above U+10FFFF). The text is kept as its bytes.
\<close>

definition cont :: "nat \<Rightarrow> bool" where
  "cont b = (128 \<le> b \<and> b \<le> 191)"

fun utf8_valid :: "nat list \<Rightarrow> bool" where
  "utf8_valid [] = True"
| "utf8_valid (b # bs) =
     (if b < 128 then utf8_valid bs
      else if 194 \<le> b \<and> b \<le> 223 then
        (case bs of c1 # r \<Rightarrow> cont c1 \<and> utf8_valid r | _ \<Rightarrow> False)
      else if 224 \<le> b \<and> b \<le> 239 then
        (case bs of
           c1 # c2 # r \<Rightarrow>
             (if b = 224 then 160 \<le> c1 \<and> c1 \<le> 191
              else if b = 237 then 128 \<le> c1 \<and> c1 \<le> 159
              else cont c1) \<and> cont c2 \<and> utf8_valid r
         | _ \<Rightarrow> False)
      else if 240 \<le> b \<and> b \<le> 244 then
        (case bs of
           c1 # c2 # c3 # r \<Rightarrow>
             (if b = 240 then 144 \<le> c1 \<and> c1 \<le> 191
              else if b = 244 then 128 \<le> c1 \<and> c1 \<le> 143
              else cont c1) \<and> cont c2 \<and> cont c3 \<and> utf8_valid r
         | _ \<Rightarrow> False)
      else False)"

definition decode :: "string \<Rightarrow> exn + string" where
  "decode bs = (if utf8_valid (map of_char bs) then Inr bs else Inl UnicodeDecodeError)"

text \<open>
  \<open>str.strip()\<close> and \<open>int(str)\<close> on ASCII text: the whitespace characters below U+0080,
  an optional sign, decimal digits, single underscores between digits. Whitespace and digits
  beyond ASCII are not modelled.
\<close>

definition isspace :: "char \<Rightarrow> bool" where
  "isspace c = (let n = (of_char c :: nat) in (9 \<le> n \<and> n \<le> 13) \<or> (28 \<le> n \<and> n \<le> 32))"

definition strip :: "string \<Rightarrow> string" where
  "strip s = rev (dropWhile isspace (rev (dropWhile isspace s)))"

definition digit :: "char \<Rightarrow> nat option" where
  "digit c = (let n = (of_char c :: nat) in if 48 \<le> n \<and> n \<le> 57 then Some (n - 48) else None)"

fun digits :: "nat \<Rightarrow> string \<Rightarrow> nat option" where
  "digits acc [] = Some acc"
| "digits acc [c] = (case digit c of None \<Rightarrow> None | Some v \<Rightarrow> Some (acc * 10 + v))"
| "digits acc (c # d # cs) =
     (if c = CHR ''_'' then
        (case digit d of None \<Rightarrow> None | Some v \<Rightarrow> digits (acc * 10 + v) cs)
      else
        (case digit c of None \<Rightarrow> None | Some v \<Rightarrow> digits (acc * 10 + v) (d # cs)))"

definition unsigned :: "string \<Rightarrow> nat option" where
  "unsigned s =
     (case s of [] \<Rightarrow> None
      | c # cs \<Rightarrow> (case digit c of None \<Rightarrow> None | Some v \<Rightarrow> digits v cs))"

text \<open>\<open>int(s)\<close>: \<open>None\<close> is \<open>ValueError\<close>.\<close>

definition py_int :: "string \<Rightarrow> int option" where
  "py_int s =
     (case strip s of
        [] \<Rightarrow> None
      | c # cs \<Rightarrow>
          if c = CHR ''-'' then map_option (\<lambda>n. - int n) (unsigned cs)
          else if c = CHR ''+'' then map_option int (unsigned cs)
          else map_option int (unsigned (c # cs)))"

record upload =
  filename :: string
  stream :: string

text \<open>
  The \<open>for row in csv_reader\<close> loop. It returns the connection, the two counters and the
  exception that ended it, if one did. A failed INSERT changes nothing, and the loop goes on
  with the same transaction.
\<close>

fun bulk_loop :: "conn \<Rightarrow> string list list \<Rightarrow> nat \<Rightarrow> nat \<Rightarrow> (conn \<times> nat \<times> nat) \<times> exn option" where
  "bulk_loop c [] added skipped = ((c, added, skipped), None)"
| "bulk_loop c (row # rows) added skipped =
     (if length row < 3 then bulk_loop c rows added skipped
      else
        (case py_int (strip (row ! 2)) of
           None \<Rightarrow> bulk_loop c rows added (skipped + 1)
         | Some class_id \<Rightarrow>
             (case insert_student c (strip (row ! 0), strip (row ! 1), class_id) of
                Inr c' \<Rightarrow> bulk_loop c' rows (added + 1) skipped
              | Inl e \<Rightarrow>
                  if e = IntegrityError \<or> e = ValueError
                  then bulk_loop c rows added (skipped + 1)
                  else ((c, added, skipped), Some e))))"

text \<open>
  \<open>csv_reader\<close> stands for \<open>csv.reader\<close> over the \<open>io.StringIO\<close> of the decoded text: the
  rows it yields, or the exception it raises on the way. \<open>request.files\<close> without the key
  \<open>file\<close> is \<open>None\<close>. The outer \<open>except Exception\<close> returns without a commit.
\<close>

definition bulk_add_students ::
  "(string \<Rightarrow> exn + string list list) \<Rightarrow> db \<Rightarrow> upload option \<Rightarrow> db \<times> response" where
  "bulk_add_students csv_reader db_file files =
     (case files of
        None \<Rightarrow> (db_file, (Error ''No file provided'', 400))
      | Some file \<Rightarrow>
          if filename file = [] then (db_file, (Error ''No file selected'', 400))
          else
            (case decode (stream file) of
               Inl e \<Rightarrow> (db_file, (BulkError e, 400))
             | Inr text \<Rightarrow>
                 (case csv_reader text of
                    Inl e \<Rightarrow> (db_file, (BulkError e, 400))
                  | Inr rows \<Rightarrow>
                      (case bulk_loop (get_conn db_file) (drop 1 rows) 0 0 of
                         ((c, added, skipped), Some e) \<Rightarrow> (close c, (BulkError e, 400))
                       | ((c, added, skipped), None) \<Rightarrow>
                           (close (commit c), (BulkMessage added skipped, 201))))))"

subsection \<open>\<open>create_period\<close>\<close>

fun largest_rowid :: "period_row list \<Rightarrow> int option" where
  "largest_rowid [] = None"
| "largest_rowid (r # rs) =
     (case largest_rowid rs of
        None \<Rightarrow> Some (sint (p_period_id r))
      | Some m \<Rightarrow> Some (max (sint (p_period_id r)) m))"

text \<open>
  \<open>INSERT INTO periods (class_id, subject_name, period_date, period_number)\<close> with
  \<open>period_id INTEGER PRIMARY KEY AUTOINCREMENT\<close>. SQLite takes one more than the largest
  \<open>period_id\<close> in the table (1 for an empty table), raised to one more than the counter in
  \<open>sqlite_sequence\<close>, and stores it in that counter; when either is already the largest
  64-bit integer the statement fails with \<open>database or disk is full\<close>. The result carries
  \<open>lastrowid\<close>.
\<close>

definition insert_period :: "conn \<Rightarrow> int \<times> string \<times> string \<times> int \<Rightarrow> exn + conn \<times> int" where
  "insert_period c ps =
     (case ps of (class_id, subject_name, period_date, period_number) \<Rightarrow>
        (case bind_int class_id of
           Inl e \<Rightarrow> Inl e
         | Inr cid \<Rightarrow>
             (case bind_int period_number of
                Inl e \<Rightarrow> Inl e
              | Inr num \<Rightarrow>
                  let d = pending c;
                      last = largest_rowid (periods d);
                      seq = sint (periods_seq d)
                  in if last = Some (2 ^ 63 - 1) \<or> seq = 2 ^ 63 - 1 then Inl OperationalError
                     else
                       let v = max (case last of None \<Rightarrow> 1 | Some m \<Rightarrow> m + 1) (seq + 1)
                       in Inr (c\<lparr>pending := d\<lparr>periods := periods d @
                                 [\<lparr>p_period_id = word_of_int v, p_class_id = cid,
                                   p_subject_name = subject_name, p_period_date = period_date,
                                   p_period_number = num\<rparr>],
                                 periods_seq := word_of_int v\<rparr>\<rparr>, v))))"

record create_period_data =
  cp_class_id :: "int option"
  cp_subject_name :: "string option"
  cp_period_date :: "string option"
  cp_period_number :: "int option"

definition create_period_params :: "create_period_data \<Rightarrow> exn + int \<times> string \<times> string \<times> int" where
  "create_period_params data =
     (case getitem (cp_class_id data) of
        Inl e \<Rightarrow> Inl e
      | Inr class_id \<Rightarrow>
          (case getitem (cp_subject_name data) of
             Inl e \<Rightarrow> Inl e
           | Inr subject_name \<Rightarrow>
               (case getitem (cp_period_date data) of
                  Inl e \<Rightarrow> Inl e
                | Inr period_date \<Rightarrow>
                    (case getitem (cp_period_number data) of
                       Inl e \<Rightarrow> Inl e
                     | Inr period_number \<Rightarrow>
                         Inr (class_id, subject_name, period_date, period_number)))))"

definition create_period :: "db \<Rightarrow> create_period_data \<Rightarrow> db \<times> response" where
  "create_period file data =
     (let conn = get_conn file in
      case create_period_params data of
        Inl e \<Rightarrow> (close conn, (InternalServerError e, 500))
      | Inr ps \<Rightarrow>
          (case insert_period conn ps of
             Inl e \<Rightarrow> (close conn, (InternalServerError e, 500))
           | Inr (conn', period_id) \<Rightarrow>
               (close (commit conn'), (PeriodCreated period_id, 201))))"

subsection \<open>\<open>mark_attendance\<close>\<close>

text \<open>
  \<open>INSERT OR REPLACE INTO attendance (period_id, reg_no, is_present)\<close> with
  \<open>PRIMARY KEY (period_id, reg_no)\<close>: the rows with the same key are deleted and the new
  row is added at the end.
\<close>

definition replace_attendance :: "conn \<Rightarrow> int \<times> string \<times> int \<Rightarrow> exn + conn" where
  "replace_attendance c ps =
     (case ps of (period_id, reg_no, is_present) \<Rightarrow>
        (case bind_int period_id of
           Inl e \<Rightarrow> Inl e
         | Inr pid \<Rightarrow>
             (case bind_int is_present of
                Inl e \<Rightarrow> Inl e
              | Inr present \<Rightarrow>
                  Inr (c\<lparr>pending := (pending c)\<lparr>attendance :=
                         filter (\<lambda>r. \<not> (a_period_id r = pid \<and> a_reg_no r = reg_no))
                           (attendance (pending c)) @
                         [\<lparr>a_period_id = pid, a_reg_no = reg_no,
                           a_is_present = present\<rparr>]\<rparr>\<rparr>))))"

record attendance_item =
  reg_no :: "string option"
  is_present :: "int option"

record mark_attendance_data =
  period_id :: "int option"
  attendance_list :: "attendance_item list option"

text \<open>
  The \<open>for record in attendance_list\<close> loop: the connection as the loop leaves it, and the
  exception that ended it, if one did.
\<close>

fun mark_loop :: "conn \<Rightarrow> int \<Rightarrow> attendance_item list \<Rightarrow> conn \<times> exn option" where
  "mark_loop c pid [] = (c, None)"
| "mark_loop c pid (record # records) =
     (case getitem (reg_no record) of
        Inl e \<Rightarrow> (c, Some e)
      | Inr r \<Rightarrow>
          (case getitem (is_present record) of
             Inl e \<Rightarrow> (c, Some e)
           | Inr p \<Rightarrow>
               (case replace_attendance c (pid, r, p) of
                  Inl e \<Rightarrow> (c, Some e)
                | Inr c' \<Rightarrow> mark_loop c' pid records)))"

definition mark_attendance :: "db \<Rightarrow> mark_attendance_data \<Rightarrow> db \<times> response" where
  "mark_attendance file data =
     (case getitem (period_id data) of
        Inl e \<Rightarrow> (file, (InternalServerError e, 500))
      | Inr pid \<Rightarrow>
          (case getitem (attendance_list data) of
             Inl e \<Rightarrow> (file, (InternalServerError e, 500))
           | Inr records \<Rightarrow>
               (case mark_loop (get_conn file) pid records of
                  (c, Some e) \<Rightarrow> (close c, (InternalServerError e, 500))
                | (c, None) \<Rightarrow> (close (commit c), (Message ''Attendance saved'', 200)))))"

subsection \<open>\<open>get_overall_attendance\<close>\<close>








subsection \<open>Calls in sequence\<close>

text \<open>
  A client that calls \<open>create_period\<close> once for each request of a list, every call on the
  database file the call before left behind: the responses in call order, and the
  \<open>period_id\<close> values of those that report a created period.
\<close>

fun create_period_calls :: "db \<Rightarrow> create_period_data list \<Rightarrow> response list" where
  "create_period_calls file [] = []"
| "create_period_calls file (data # rest) =
     (case create_period file data of
        (file', resp) \<Rightarrow> resp # create_period_calls file' rest)"

fun period_ids :: "response list \<Rightarrow> int list" where
  "period_ids [] = []"
| "period_ids ((PeriodCreated v, status) # rs) = v # period_ids rs"
| "period_ids (resp # rs) = period_ids rs"

subsection \<open>The counting rule of the bulk import, as specified\<close>

text \<open>
  The rule in the words of the specification, over the rows after the header and the student
  rows stored so far: a row of fewer than 3 fields is dropped and counted nowhere; a row
  whose class_id does not parse as an integer, or whose reg_no is already stored, adds one to
  skipped; every other row is inserted and adds one to added.
\<close>

fun spec_import ::
  "string list list \<Rightarrow> student_row list \<times> nat \<times> nat \<Rightarrow> student_row list \<times> nat \<times> nat" where
  "spec_import [] acc = acc"
| "spec_import (row # rows) (studs, added, skipped) =
     (if length row < 3 then spec_import rows (studs, added, skipped)
      else
        (case py_int (strip (row ! 2)) of
           None \<Rightarrow> spec_import rows (studs, added, skipped + 1)
         | Some class_id \<Rightarrow>
             if strip (row ! 0) \<in> s_reg_no ` set studs
             then spec_import rows (studs, added, skipped + 1)
             else spec_import rows
                    (studs @ [\<lparr>s_reg_no = strip (row ! 0), s_student_name = strip (row ! 1),
                               s_class_id = word_of_int class_id\<rparr>],
                     added + 1, skipped)))"

subsection \<open>Example files\<close>

text \<open>
  \<open>csv.reader\<close> on text that has no quote character and no carriage return: a line ends
  at a line feed, a field at a comma, and an empty line is the empty row.
\<close>

fun split_at :: "char \<Rightarrow> string \<Rightarrow> string list" where
  "split_at sep [] = [[]]"
| "split_at sep (c # cs) =
     (if c = sep then [] # split_at sep cs
      else (case split_at sep cs of [] \<Rightarrow> [[c]] | f # fs \<Rightarrow> (c # f) # fs))"

definition plain_lines :: "string \<Rightarrow> string list" where
  "plain_lines text =
     (let ls = split_at (CHR 0x0A) text in if last ls = [] then butlast ls else ls)"

definition plain_csv :: "string \<Rightarrow> exn + string list list" where
  "plain_csv text =
     Inr (map (\<lambda>l. if l = [] then [] else split_at (CHR '','') l) (plain_lines text))"

text \<open>
  The example of the specification: five well-formed rows, a row that repeats a reg_no and
  a row of two fields. And a file whose second row has the class_id \<open>2 ^ 63\<close>.
\<close>

definition example_csv :: string where
  "example_csv =
     ''reg_no,student_name,class_id'' @ [CHR 0x0A] @
     ''S1,Asha,1'' @ [CHR 0x0A] @
     ''S2, Bala ,1'' @ [CHR 0x0A] @
     ''S3,Chitra,2'' @ [CHR 0x0A] @
     ''S4,Dev,2'' @ [CHR 0x0A] @
     ''S5,Esha,3'' @ [CHR 0x0A] @
     ''S1,Farid,1'' @ [CHR 0x0A] @
     ''S6,Gita'' @ [CHR 0x0A]"

definition overflow_csv :: string where
  "overflow_csv =
     ''reg_no,student_name,class_id'' @ [CHR 0x0A] @
     ''S1,Asha,1'' @ [CHR 0x0A] @
     ''S2,Bala,9223372036854775808'' @ [CHR 0x0A]"

section \<open>Properties\<close>

lemma bind_int_sint: "bind_int (sint (w :: sqlite_int)) = Inr w"
proof -
  have "- (2 ^ 63) \<le> sint w" using sint_ge [of w] by simp
  moreover have "sint w < 2 ^ 63" using sint_lt [of w] by simp
  ultimately show ?thesis by (simp add: bind_int_def)
qed

subsection \<open>Adding a class\<close>

text \<open>
  C3: when a class with the class_id of the request is already stored, \<open>add_class\<close> answers
  400 \<open>Class ID already exists\<close> (the spec's DuplicateKey), and the database file it leaves
  is the one it found: the stored class row and everything else are unchanged.
\<close>

theorem add_class_duplicate:
  assumes "ac_class_id data = Some n" and "ac_class_name data = Some nm"
    and "r \<in> set (classes file)" and "sint (c_class_id r) = n"
  shows "add_class file data = (file, (Error ''Class ID already exists'', 400)) \<and>
         r \<in> set (classes (fst (add_class file data)))"
proof -
  have b: "bind_int n = Inr (c_class_id r)"
    using assms(4) bind_int_sint [of "c_class_id r"] by simp
  have "insert_class (get_conn file) (n, nm, case ac_department data of None \<Rightarrow> [] | Some d \<Rightarrow> d)
          = Inl IntegrityError"
    using assms(3) by (auto simp: insert_class_def b get_conn_def)
  then have "add_class file data = (file, (Error ''Class ID already exists'', 400))"
    using assms(1,2)
    by (simp add: add_class_def add_class_params_def getitem_def close_def get_conn_def)
  then show ?thesis using assms(3) by simp
qed

theorem add_class_duplicate_witness:
  "add_class
     (empty_db\<lparr>classes :=
        [\<lparr>c_class_id = 7, c_class_name = ''CSE-A'', c_department = ''CSE''\<rparr>]\<rparr>)
     \<lparr>ac_class_id = Some 7, ac_class_name = Some ''ECE-B'', ac_department = None\<rparr>
   = (empty_db\<lparr>classes :=
        [\<lparr>c_class_id = 7, c_class_name = ''CSE-A'', c_department = ''CSE''\<rparr>]\<rparr>,
      (Error ''Class ID already exists'', 400))"
  using add_class_duplicate
    [of "\<lparr>ac_class_id = Some 7, ac_class_name = Some ''ECE-B'', ac_department = None\<rparr>"
      7 "''ECE-B''" "\<lparr>c_class_id = 7, c_class_name = ''CSE-A'', c_department = ''CSE''\<rparr>"
      "empty_db\<lparr>classes :=
         [\<lparr>c_class_id = 7, c_class_name = ''CSE-A'', c_department = ''CSE''\<rparr>]\<rparr>"]
  by (simp add: empty_db_def)

subsection \<open>Adding a student\<close>

text \<open>
  C6: \<open>add_student\<close> does not look the class up. For a request with its three keys, a
  class_id that SQLite can store and that no stored class has, and a reg_no no stored
  student has, it answers 201 and the committed database file holds the new student row.
\<close>

theorem add_student_orphan:
  assumes "as_reg_no data = Some r" and "as_student_name data = Some nm"
    and "as_class_id data = Some n" and "- (2 ^ 63) \<le> n" and "n < 2 ^ 63"
    and "\<forall>s \<in> set (students file). s_reg_no s \<noteq> r"
    and "\<forall>c \<in> set (classes file). sint (c_class_id c) \<noteq> n"
  shows "add_student file data =
           (file\<lparr>students := students file @
              [\<lparr>s_reg_no = r, s_student_name = nm, s_class_id = word_of_int n\<rparr>]\<rparr>,
            (Message ''Student added'', 201))"
  using assms(1-6)
  by (simp add: add_student_def add_student_params_def getitem_def insert_student_def
      bind_int_def get_conn_def commit_def close_def)

theorem add_student_orphan_witness:
  "add_student
     (empty_db\<lparr>classes :=
        [\<lparr>c_class_id = 1, c_class_name = ''CSE-A'', c_department = ''CSE''\<rparr>]\<rparr>)
     \<lparr>as_reg_no = Some ''21CS001'', as_student_name = Some ''Asha'', as_class_id = Some 99\<rparr>
   = (empty_db\<lparr>classes :=
        [\<lparr>c_class_id = 1, c_class_name = ''CSE-A'', c_department = ''CSE''\<rparr>],
        students :=
        [\<lparr>s_reg_no = ''21CS001'', s_student_name = ''Asha'', s_class_id = 99\<rparr>]\<rparr>,
      (Message ''Student added'', 201))"
  using add_student_orphan
    [of "\<lparr>as_reg_no = Some ''21CS001'', as_student_name = Some ''Asha'', as_class_id = Some 99\<rparr>"
      "''21CS001''" "''Asha''" 99
      "empty_db\<lparr>classes :=
         [\<lparr>c_class_id = 1, c_class_name = ''CSE-A'', c_department = ''CSE''\<rparr>]\<rparr>"]
  by (simp add: empty_db_def)

subsection \<open>Listing students\<close>




subsection \<open>Bulk import: undecodable content\<close>

text \<open>
  C9: when a file was selected and its content is not well-formed UTF-8,
  \<open>bulk_add_students\<close> answers 400 with the one error of the decoding, reports no counts,
  and leaves the database file as it found it: no student row is added.
\<close>

theorem bulk_undecodable:
  assumes "filename file \<noteq> []" and "\<not> utf8_valid (map of_char (stream file))"
  shows "bulk_add_students csv_reader db_file (Some file) =
           (db_file, (BulkError UnicodeDecodeError, 400))"
  using assms by (simp add: bulk_add_students_def decode_def)

theorem bulk_undecodable_witness:
  "bulk_add_students (\<lambda>t. Inr []) empty_db
     (Some \<lparr>filename = ''students.csv'', stream = [CHR 0xFF, CHR 0xFE]\<rparr>)
   = (empty_db, (BulkError UnicodeDecodeError, 400))"
  using bulk_undecodable
    [of "\<lparr>filename = ''students.csv'', stream = [CHR 0xFF, CHR 0xFE]\<rparr>" "\<lambda>t. Inr []" empty_db]
  by simp

subsection \<open>Marking attendance\<close>

lemma replace_attendance_Inr:
  "replace_attendance c (p, r, v) = Inr c' \<Longrightarrow>
     - (2 ^ 63) \<le> p \<and> p < 2 ^ 63 \<and> - (2 ^ 63) \<le> v \<and> v < 2 ^ 63 \<and>
     committed c' = committed c \<and>
     attendance (pending c') =
       filter (\<lambda>a. \<not> (a_period_id a = word_of_int p \<and> a_reg_no a = r)) (attendance (pending c)) @
       [\<lparr>a_period_id = word_of_int p, a_reg_no = r, a_is_present = word_of_int v\<rparr>]"
  by (auto simp: replace_attendance_def bind_int_def split: if_splits)

lemma mark_loop_committed: "committed (fst (mark_loop c p rs)) = committed c"
proof (induction rs arbitrary: c)
  case Nil
  then show ?case by simp
next
  case (Cons i rs)
  show ?case
  proof (cases "reg_no i")
    case None
    then show ?thesis by (simp add: getitem_def)
  next
    case (Some r)
    note r = this
    show ?thesis
    proof (cases "is_present i")
      case None
      then show ?thesis using r by (simp add: getitem_def)
    next
      case (Some v)
      show ?thesis
      proof (cases "replace_attendance c (p, r, v)")
        case (Inl e)
        then show ?thesis using r Some by (simp add: getitem_def)
      next
        case (Inr c')
        then show ?thesis
          using r Some Cons.IH [of c'] replace_attendance_Inr [OF Inr]
          by (simp add: getitem_def)
      qed
    qed
  qed
qed

lemma mark_loop_Cons_None:
  "mark_loop c p (i # rs) = (c', None) \<Longrightarrow>
     \<exists>r v c1. reg_no i = Some r \<and> is_present i = Some v \<and>
       replace_attendance c (p, r, v) = Inr c1 \<and> mark_loop c1 p rs = (c', None)"
  by (auto simp: getitem_def split: option.splits sum.splits)



lemma sint_bind:
  "- (2 ^ 63) \<le> n \<Longrightarrow> n < 2 ^ 63 \<Longrightarrow> sint (word_of_int n :: sqlite_int) = n"
  by (simp add: signed_of_int signed_take_bit_int_eq_self)





lemma mark_loop_bad:
  assumes "item \<in> set rs"
    and "reg_no item = None \<or> is_present item = None \<or>
         (\<exists>v. is_present item = Some v \<and> (v < - (2 ^ 63) \<or> 2 ^ 63 \<le> v))"
  shows "snd (mark_loop c p rs) \<noteq> None"
  using assms(1)
proof (induction rs arbitrary: c)
  case Nil
  then show ?case by simp
next
  case (Cons i rs)
  show ?case
  proof (cases "mark_loop c p (i # rs)")
    case (Pair c' x)
    show ?thesis
    proof (cases x)
      case (Some e)
      then show ?thesis using Pair by simp
    next
      case None
      from mark_loop_Cons_None [OF Pair [unfolded None]]
      obtain r v c1 where h: "reg_no i = Some r" "is_present i = Some v"
        "replace_attendance c (p, r, v) = Inr c1" "mark_loop c1 p rs = (c', None)"
        by auto
      have "item \<noteq> i"
        using assms(2) h(1,2) replace_attendance_Inr [OF h(3)] by auto
      then have "item \<in> set rs" using Cons.prems by simp
      from Cons.IH [OF this, of c1] h(4) show ?thesis by simp
    qed
  qed
qed

text \<open>
  C4, as the code has it: the batch is one transaction, committed once after the last pair.
  When any pair of the batch lacks its reg_no or is_present key, or carries an is_present
  that SQLite cannot store, \<open>mark_attendance\<close> answers 500 and the database file is exactly
  the one it found: no pair of the batch is stored, whether it came before or after.
\<close>

theorem mark_attendance_all_or_nothing:
  assumes "period_id data = Some p" and "attendance_list data = Some records"
    and "item \<in> set records"
    and "reg_no item = None \<or> is_present item = None \<or>
         (\<exists>v. is_present item = Some v \<and> (v < - (2 ^ 63) \<or> 2 ^ 63 \<le> v))"
  shows "\<exists>e. mark_attendance file data = (file, (InternalServerError e, 500))"
proof -
  obtain c x where l: "mark_loop (get_conn file) p records = (c, x)"
    by (cases "mark_loop (get_conn file) p records") auto
  from mark_loop_bad [OF assms(3,4), of "get_conn file" p] l obtain e where e: "x = Some e"
    by auto
  have "committed c = file"
    using mark_loop_committed [of "get_conn file" p records] l by (simp add: get_conn_def)
  then show ?thesis
    using assms(1,2) l e by (simp add: mark_attendance_def getitem_def close_def)
qed

theorem mark_attendance_all_or_nothing_witness:
  "\<exists>e. mark_attendance
          (empty_db\<lparr>attendance := [\<lparr>a_period_id = 1, a_reg_no = ''S1'', a_is_present = 0\<rparr>]\<rparr>)
          \<lparr>period_id = Some 1, attendance_list = Some
             [\<lparr>reg_no = Some ''S1'', is_present = Some 1\<rparr>,
              \<lparr>reg_no = Some ''S2'', is_present = None\<rparr>,
              \<lparr>reg_no = Some ''S3'', is_present = Some 1\<rparr>]\<rparr>
        = (empty_db\<lparr>attendance := [\<lparr>a_period_id = 1, a_reg_no = ''S1'', a_is_present = 0\<rparr>]\<rparr>,
           (InternalServerError e, 500))"
  using mark_attendance_all_or_nothing
    [of "\<lparr>period_id = Some 1, attendance_list = Some
             [\<lparr>reg_no = Some ''S1'', is_present = Some 1\<rparr>,
              \<lparr>reg_no = Some ''S2'', is_present = None\<rparr>,
              \<lparr>reg_no = Some ''S3'', is_present = Some 1\<rparr>]\<rparr>"
      1 "[\<lparr>reg_no = Some ''S1'', is_present = Some 1\<rparr>,
              \<lparr>reg_no = Some ''S2'', is_present = None\<rparr>,
              \<lparr>reg_no = Some ''S3'', is_present = Some 1\<rparr>]"
      "\<lparr>reg_no = Some ''S2'', is_present = None\<rparr>"
      "empty_db\<lparr>attendance := [\<lparr>a_period_id = 1, a_reg_no = ''S1'', a_is_present = 0\<rparr>]\<rparr>"]
  by simp

text \<open>
  C4, as the claim has it, fails: a batch of a well-formed pair followed by a pair without
  reg_no. The loop applies the first pair on the connection, the second raises
  \<open>KeyError\<close>, \<open>conn.commit()\<close> is never reached, and the database file holds no row.
\<close>

theorem mark_attendance_rolls_back:
  "mark_attendance empty_db
     \<lparr>period_id = Some 1, attendance_list = Some
        [\<lparr>reg_no = Some ''S1'', is_present = Some 1\<rparr>,
         \<lparr>reg_no = None, is_present = Some 1\<rparr>]\<rparr>
   = (empty_db, (InternalServerError KeyError, 500)) \<and>
   attendance (pending (fst (mark_loop (get_conn empty_db) 1
        [\<lparr>reg_no = Some ''S1'', is_present = Some 1\<rparr>,
         \<lparr>reg_no = None, is_present = Some 1\<rparr>])))
   = [\<lparr>a_period_id = 1, a_reg_no = ''S1'', a_is_present = 1\<rparr>] \<and>
   attendance (fst (mark_attendance empty_db
     \<lparr>period_id = Some 1, attendance_list = Some
        [\<lparr>reg_no = Some ''S1'', is_present = Some 1\<rparr>,
         \<lparr>reg_no = None, is_present = Some 1\<rparr>]\<rparr>)) = []"
  by (simp add: mark_attendance_def getitem_def replace_attendance_def bind_int_def
      get_conn_def commit_def close_def empty_db_def)

subsection \<open>Creating periods\<close>

lemma largest_rowid_bound: "largest_rowid rs = Some m \<Longrightarrow> m < 2 ^ 63"
proof (induction rs arbitrary: m)
  case Nil
  then show ?case by simp
next
  case (Cons r rs)
  have "sint (p_period_id r) < 2 ^ 63" using sint_lt [of "p_period_id r"] by simp
  then show ?case using Cons by (auto split: option.splits)
qed

lemma insert_period_Inr:
  assumes "insert_period c ps = Inr (c', v)"
  shows "sint (periods_seq (pending c)) < v \<and> sint (periods_seq (pending c')) = v \<and>
         committed c' = committed c"
proof -
  obtain class_id subject_name period_date period_number where
    ps: "ps = (class_id, subject_name, period_date, period_number)" by (cases ps) auto
  let ?last = "largest_rowid (periods (pending c))"
  let ?seq = "sint (periods_seq (pending c))"
  let ?v = "max (case ?last of None \<Rightarrow> 1 | Some m \<Rightarrow> m + 1) (?seq + 1)"
  from assms ps have ok: "?last \<noteq> Some (2 ^ 63 - 1)" "?seq \<noteq> 2 ^ 63 - 1"
    and v: "v = ?v" and c': "periods_seq (pending c') = word_of_int ?v" "committed c' = committed c"
    by (auto simp: insert_period_def Let_def split: sum.splits if_splits)
  have lo: "- (2 ^ 63) \<le> ?seq" using sint_ge [of "periods_seq (pending c)"] by simp
  have hi: "?seq < 2 ^ 63" using sint_lt [of "periods_seq (pending c)"] by simp
  have "(case ?last of None \<Rightarrow> 1 | Some m \<Rightarrow> m + 1) < 2 ^ 63"
    using ok(1) largest_rowid_bound [of "periods (pending c)"]
    by (cases ?last) force+
  then have "?v < 2 ^ 63" using hi ok(2) by simp
  moreover have "- (2 ^ 63) \<le> ?v" using lo by simp
  ultimately have "sint (word_of_int ?v :: sqlite_int) = ?v" by (rule sint_bind [rotated])
  then show ?thesis using v c' by simp
qed

lemma create_period_cases:
  "(\<exists>v file'. create_period file data = (file', (PeriodCreated v, 201)) \<and>
       sint (periods_seq file) < v \<and> sint (periods_seq file') = v) \<or>
   (\<exists>e. create_period file data = (file, (InternalServerError e, 500)))"
proof (cases "create_period_params data")
  case (Inl e)
  then show ?thesis by (simp add: create_period_def close_def get_conn_def)
next
  case (Inr ps)
  show ?thesis
  proof (cases "insert_period (get_conn file) ps")
    case (Inl e)
    then show ?thesis using Inr by (simp add: create_period_def close_def get_conn_def)
  next
    case (Inr res)
    obtain c' v where res: "res = (c', v)" by (cases res) auto
    from insert_period_Inr [of "get_conn file" ps c' v] Inr res
    have "sint (periods_seq file) < v" "sint (periods_seq (pending c')) = v"
      by (simp_all add: get_conn_def)
    then show ?thesis using \<open>create_period_params data = Inr ps\<close> Inr res
      by (simp add: create_period_def close_def commit_def)
  qed
qed

lemma period_ids_above:
  "\<forall>v \<in> set (period_ids (create_period_calls file ds)). sint (periods_seq file) < v"
proof (induction ds arbitrary: "file")
  case Nil
  then show ?case by simp
next
  case (Cons d ds)
  from create_period_cases [of "file" d] show ?case
  proof (elim disjE exE conjE)
    fix v file'
    assume h: "create_period file d = (file', (PeriodCreated v, 201))"
      "sint (periods_seq file) < v" "sint (periods_seq file') = v"
    then show ?thesis using Cons.IH [of file'] by auto
  next
    fix e
    assume "create_period file d = (file, (InternalServerError e, 500))"
    then show ?thesis using Cons.IH [of "file"] by simp
  qed
qed

lemma period_ids_sorted: "sorted_wrt (<) (period_ids (create_period_calls file ds))"
proof (induction ds arbitrary: "file")
  case Nil
  then show ?case by simp
next
  case (Cons d ds)
  from create_period_cases [of "file" d] show ?case
  proof (elim disjE exE conjE)
    fix v file'
    assume h: "create_period file d = (file', (PeriodCreated v, 201))"
      "sint (periods_seq file) < v" "sint (periods_seq file') = v"
    then show ?thesis using Cons.IH [of file'] period_ids_above [of file' ds] by auto
  next
    fix e
    assume "create_period file d = (file, (InternalServerError e, 500))"
    then show ?thesis using Cons.IH [of "file"] by simp
  qed
qed

lemma period_ids_length:
  "\<forall>resp \<in> set (create_period_calls file ds). snd resp = 201 \<Longrightarrow>
     length (period_ids (create_period_calls file ds)) = length ds"
proof (induction ds arbitrary: "file")
  case Nil
  then show ?case by simp
next
  case (Cons d ds)
  from create_period_cases [of "file" d] show ?case
  proof (elim disjE exE conjE)
    fix v file'
    assume h: "create_period file d = (file', (PeriodCreated v, 201))"
    then show ?thesis using Cons.IH [of file'] Cons.prems by auto
  next
    fix e
    assume "create_period file d = (file, (InternalServerError e, 500))"
    then show ?thesis using Cons.prems by simp
  qed
qed

text \<open>
  C5: over any sequence of \<open>create_period\<close> calls, from any database file, the period_id
  values returned are strictly increasing in call order, hence pairwise distinct; and when
  all N calls succeed (status 201) there are N of them.
\<close>

theorem create_period_ids_increase:
  "sorted_wrt (<) (period_ids (create_period_calls file ds)) \<and>
   distinct (period_ids (create_period_calls file ds)) \<and>
   ((\<forall>resp \<in> set (create_period_calls file ds). snd resp = 201) \<longrightarrow>
      length (period_ids (create_period_calls file ds)) = length ds)"
  using period_ids_sorted [of "file" ds] period_ids_length [of "file" ds]
    strict_sorted_iff [of "period_ids (create_period_calls file ds)"]
  by blast

theorem create_period_ids_increase_witness:
  "create_period_calls empty_db
     [\<lparr>cp_class_id = Some 1, cp_subject_name = Some ''Maths'',
       cp_period_date = Some ''2025-12-15'', cp_period_number = Some 1\<rparr>,
      \<lparr>cp_class_id = Some 1, cp_subject_name = Some ''Physics'',
       cp_period_date = Some ''2025-12-15'', cp_period_number = Some 2\<rparr>,
      \<lparr>cp_class_id = Some 2, cp_subject_name = Some ''Maths'',
       cp_period_date = Some ''2025-12-15'', cp_period_number = Some 1\<rparr>]
   = [(PeriodCreated 1, 201), (PeriodCreated 2, 201), (PeriodCreated 3, 201)] \<and>
   sorted_wrt (<) (period_ids
     [(PeriodCreated 1, 201), (PeriodCreated 2, 201), (PeriodCreated 3, 201)]) \<and>
   distinct (period_ids
     [(PeriodCreated 1, 201), (PeriodCreated 2, 201), (PeriodCreated 3, 201)]) \<and>
   length (period_ids
     [(PeriodCreated 1, 201), (PeriodCreated 2, 201), (PeriodCreated 3, 201)]) = 3"
proof -
  let ?ds = "[\<lparr>cp_class_id = Some 1, cp_subject_name = Some ''Maths'',
       cp_period_date = Some ''2025-12-15'', cp_period_number = Some 1\<rparr>,
      \<lparr>cp_class_id = Some 1, cp_subject_name = Some ''Physics'',
       cp_period_date = Some ''2025-12-15'', cp_period_number = Some 2\<rparr>,
      \<lparr>cp_class_id = Some 2, cp_subject_name = Some ''Maths'',
       cp_period_date = Some ''2025-12-15'', cp_period_number = Some 1\<rparr>]"
  have e: "create_period_calls empty_db ?ds =
             [(PeriodCreated 1, 201), (PeriodCreated 2, 201), (PeriodCreated 3, 201)]"
    by (simp add: create_period_def create_period_params_def getitem_def insert_period_def
        bind_int_def get_conn_def commit_def close_def empty_db_def Let_def)
  show ?thesis
    using create_period_ids_increase [of empty_db ?ds] unfolding e by simp
qed

subsection \<open>Overall attendance\<close>
















subsection \<open>Bulk import: counting\<close>

lemma insert_student_in_range:
  assumes "- (2 ^ 63) \<le> n" and "n < 2 ^ 63"
  shows "insert_student c (r, nm, n) =
           (if r \<in> s_reg_no ` set (students (pending c)) then Inl IntegrityError
            else Inr (c\<lparr>pending := (pending c)\<lparr>students := students (pending c) @
                   [\<lparr>s_reg_no = r, s_student_name = nm, s_class_id = word_of_int n\<rparr>]\<rparr>\<rparr>))"
  using assms by (auto simp: insert_student_def bind_int_def)

lemma bulk_loop_spec:
  assumes "\<forall>row \<in> set rows. 3 \<le> length row \<longrightarrow>
             (\<forall>n. py_int (strip (row ! 2)) = Some n \<longrightarrow> - (2 ^ 63) \<le> n \<and> n < 2 ^ 63)"
    and "spec_import rows (students (pending c), a, k) = (studs, a', k')"
  shows "bulk_loop c rows a k = ((c\<lparr>pending := (pending c)\<lparr>students := studs\<rparr>\<rparr>, a', k'), None)"
  using assms
proof (induction rows arbitrary: c a k)
  case Nil
  then show ?case by simp
next
  case (Cons row rows)
  have rest: "\<forall>row \<in> set rows. 3 \<le> length row \<longrightarrow>
             (\<forall>n. py_int (strip (row ! 2)) = Some n \<longrightarrow> - (2 ^ 63) \<le> n \<and> n < 2 ^ 63)"
    using Cons.prems(1) by simp
  show ?case
  proof (cases "length row < 3")
    case True
    then show ?thesis using Cons.IH [OF rest, of c a k] Cons.prems(2) by simp
  next
    case False
    note long = this
    show ?thesis
    proof (cases "py_int (strip (row ! 2))")
      case None
      then show ?thesis using long Cons.IH [OF rest, of c a "k + 1"] Cons.prems(2) by simp
    next
      case (Some n)
      have range: "- (2 ^ 63) \<le> n \<and> n < 2 ^ 63"
        using Cons.prems(1) long Some by simp
      note ins = insert_student_in_range [of n c "strip (row ! 0)" "strip (row ! 1)"]
      show ?thesis
      proof (cases "strip (row ! 0) \<in> s_reg_no ` set (students (pending c))")
        case True
        then show ?thesis
          using long Some range ins Cons.IH [OF rest, of c a "k + 1"] Cons.prems(2) by simp
      next
        case False
        let ?c' = "c\<lparr>pending := (pending c)\<lparr>students := students (pending c) @
                   [\<lparr>s_reg_no = strip (row ! 0), s_student_name = strip (row ! 1),
                     s_class_id = word_of_int n\<rparr>]\<rparr>\<rparr>"
        have "spec_import rows (students (pending ?c'), a + 1, k) = (studs, a', k')"
          using Cons.prems(2) long Some False by simp
        from Cons.IH [OF rest this] show ?thesis
          using long Some range ins False by simp
      qed
    qed
  qed
qed

text \<open>
  The bulk import follows the specified counting rule on every file in which each class_id
  that parses is an integer SQLite can store: the students stored and the two counts are
  those of \<open>spec_import\<close>, and the answer is 201. On the example file that is added = 5,
  skipped = 1.
\<close>

theorem bulk_add_students_counts:
  assumes "filename file \<noteq> []" and "utf8_valid (map of_char (stream file))"
    and "csv_reader (stream file) = Inr all_rows"
    and "\<forall>row \<in> set (drop 1 all_rows). 3 \<le> length row \<longrightarrow>
           (\<forall>n. py_int (strip (row ! 2)) = Some n \<longrightarrow> - (2 ^ 63) \<le> n \<and> n < 2 ^ 63)"
    and "spec_import (drop 1 all_rows) (students db_file, 0, 0) = (studs, added, skipped)"
  shows "bulk_add_students csv_reader db_file (Some file) =
           (db_file\<lparr>students := studs\<rparr>, (BulkMessage added skipped, 201))"
proof -
  have "bulk_loop (get_conn db_file) (drop 1 all_rows) 0 0 =
          (((get_conn db_file)\<lparr>pending := (pending (get_conn db_file))\<lparr>students := studs\<rparr>\<rparr>,
            added, skipped), None)"
    using bulk_loop_spec [OF assms(4), of "get_conn db_file" 0 0 studs added skipped] assms(5)
    by (simp add: get_conn_def)
  then show ?thesis
    using assms(1,2,3)
    by (simp add: bulk_add_students_def decode_def get_conn_def commit_def close_def)
qed

lemma example_rows:
  "plain_csv example_csv = Inr
     [[''reg_no'', ''student_name'', ''class_id''],
      [''S1'', ''Asha'', ''1''], [''S2'', '' Bala '', ''1''], [''S3'', ''Chitra'', ''2''],
      [''S4'', ''Dev'', ''2''], [''S5'', ''Esha'', ''3''], [''S1'', ''Farid'', ''1''],
      [''S6'', ''Gita'']]"
  by (simp add: plain_csv_def plain_lines_def example_csv_def)

lemma example_valid: "utf8_valid (map of_char example_csv)"
  by (simp add: example_csv_def)

lemma py_int_digit:
  "py_int ''1'' = Some 1" "py_int ''2'' = Some 2" "py_int ''3'' = Some 3"
  by (simp_all add: py_int_def strip_def isspace_def unsigned_def digit_def)

lemma strip_examples:
  "strip ''1'' = ''1''" "strip ''2'' = ''2''" "strip ''3'' = ''3''"
  "strip ''S1'' = ''S1''" "strip ''S2'' = ''S2''" "strip ''S3'' = ''S3''"
  "strip ''S4'' = ''S4''" "strip ''S5'' = ''S5''"
  "strip ''Asha'' = ''Asha''" "strip '' Bala '' = ''Bala''" "strip ''Chitra'' = ''Chitra''"
  "strip ''Dev'' = ''Dev''" "strip ''Esha'' = ''Esha''" "strip ''Farid'' = ''Farid''"
  by (simp_all add: strip_def isspace_def)

theorem bulk_add_students_counts_witness:
  "bulk_add_students plain_csv empty_db
     (Some \<lparr>filename = ''students.csv'', stream = example_csv\<rparr>) =
   (empty_db\<lparr>students :=
      [\<lparr>s_reg_no = ''S1'', s_student_name = ''Asha'', s_class_id = 1\<rparr>,
       \<lparr>s_reg_no = ''S2'', s_student_name = ''Bala'', s_class_id = 1\<rparr>,
       \<lparr>s_reg_no = ''S3'', s_student_name = ''Chitra'', s_class_id = 2\<rparr>,
       \<lparr>s_reg_no = ''S4'', s_student_name = ''Dev'', s_class_id = 2\<rparr>,
       \<lparr>s_reg_no = ''S5'', s_student_name = ''Esha'', s_class_id = 3\<rparr>]\<rparr>,
    (BulkMessage 5 1, 201))"
proof -
  let ?file = "\<lparr>filename = ''students.csv'', stream = example_csv\<rparr>"
  let ?rows = "[[''reg_no'', ''student_name'', ''class_id''],
      [''S1'', ''Asha'', ''1''], [''S2'', '' Bala '', ''1''], [''S3'', ''Chitra'', ''2''],
      [''S4'', ''Dev'', ''2''], [''S5'', ''Esha'', ''3''], [''S1'', ''Farid'', ''1''],
      [''S6'', ''Gita'']]"
  let ?studs = "[\<lparr>s_reg_no = ''S1'', s_student_name = ''Asha'', s_class_id = 1\<rparr>,
       \<lparr>s_reg_no = ''S2'', s_student_name = ''Bala'', s_class_id = 1\<rparr>,
       \<lparr>s_reg_no = ''S3'', s_student_name = ''Chitra'', s_class_id = 2\<rparr>,
       \<lparr>s_reg_no = ''S4'', s_student_name = ''Dev'', s_class_id = 2\<rparr>,
       \<lparr>s_reg_no = ''S5'', s_student_name = ''Esha'', s_class_id = 3\<rparr>]"
  have h1: "filename ?file \<noteq> []" by simp
  have h2: "utf8_valid (map of_char (stream ?file))" by (simp add: example_valid)
  have h3: "plain_csv (stream ?file) = Inr ?rows" by (simp add: example_rows)
  have h4: "\<forall>row \<in> set (drop 1 ?rows). 3 \<le> length row \<longrightarrow>
           (\<forall>n. py_int (strip (row ! 2)) = Some n \<longrightarrow> - (2 ^ 63) \<le> n \<and> n < 2 ^ 63)"
    by (simp add: strip_examples py_int_digit)
  have h5: "spec_import (drop 1 ?rows) (students empty_db, 0, 0) = (?studs, 5, 1)"
    by (simp add: strip_examples py_int_digit empty_db_def)
  show ?thesis
    using bulk_add_students_counts [where csv_reader = plain_csv, OF h1 h2 h3 h4 h5] by (simp add: empty_db_def)
qed

lemma overflow_rows:
  "plain_csv overflow_csv = Inr
     [[''reg_no'', ''student_name'', ''class_id''],
      [''S1'', ''Asha'', ''1''], [''S2'', ''Bala'', ''9223372036854775808'']]"
  by (simp add: plain_csv_def plain_lines_def overflow_csv_def)

lemma overflow_valid: "utf8_valid (map of_char overflow_csv)"
  by (simp add: overflow_csv_def)

lemma py_int_overflow: "py_int ''9223372036854775808'' = Some (2 ^ 63)"
  by (simp add: py_int_def strip_def isspace_def unsigned_def digit_def)

text \<open>
  C8: the counting rule does not hold for every row. The row \<open>S2,Bala,9223372036854775808\<close>
  has three fields, a class_id that \<open>int\<close> parses and a reg_no that is not stored, so the
  rule has it inserted and counted as added. In the code the INSERT raises
  \<open>OverflowError\<close>, which the inner \<open>except (sqlite3.IntegrityError, ValueError)\<close> does not
  catch: the outer handler answers 400, no counts are reported, nothing is committed and the
  row \<open>S1\<close> before it is lost as well.
\<close>

theorem bulk_add_students_overflow_aborts:
  "py_int ''9223372036854775808'' = Some (2 ^ 63) \<and>
   bulk_add_students plain_csv empty_db
     (Some \<lparr>filename = ''students.csv'', stream = overflow_csv\<rparr>) =
   (empty_db, (BulkError OverflowError, 400))"
  by (simp add: py_int_overflow bulk_add_students_def decode_def overflow_valid overflow_rows
      strip_examples py_int_digit insert_student_def bind_int_def get_conn_def close_def
      empty_db_def strip_def isspace_def)

end
